theory Spec2Isabelle
  imports Complex_Main
begin

section \<open>Python values, errors and columnar data\<close>

text \<open>
  A shallow embedding of \<^verbatim>\<open>src/uni2ts/data/builder/simple_polars.py\<close>.
  Python floats are read as real numbers (no rounding, no NaN, no infinities), Python
  exceptions as the left summand of a result, and the files and the persisted datasets
  as explicit maps that the builders read and return updated.
\<close>

datatype error = ValueError | KeyError | FileNotFoundError | ColumnNotFoundError

text \<open>
  \<^verbatim>\<open>args.freq\<close> is whatever the caller put there: the command line gives a
  string, a programmatic caller may give a number. \<^verbatim>\<open>args.freq == 1.0\<close> is true
  for a number equal to one and false for every string.
\<close>

datatype pyval = PyStr string | PyNum real


text \<open>\<^verbatim>\<open>int(x)\<close> on a float truncates towards zero.\<close>

definition py_int :: "real \<Rightarrow> int" where
  "py_int x = (if 0 \<le> x then \<lfloor>x\<rfloor> else \<lceil>x\<rceil>)"

text \<open>
  A cell of a list-valued column is a sequence or null; a row of a table names its cells.
\<close>

type_synonym cell = "real list option"

type_synonym row = "(string \<times> cell) list"

text \<open>
  What the code reads of a \<^verbatim>\<open>Path\<close> object: its text, \<^verbatim>\<open>is_file()\<close>,
  \<^verbatim>\<open>suffix\<close>, and the table \<^verbatim>\<open>pl.scan_parquet\<close> finds in it.
\<close>

record path_object =
  po_path :: string
  po_is_file :: bool
  po_suffix :: string
  po_table :: "row list"

type_synonym filesystem = "string \<Rightarrow> path_object list option"

section \<open>The polars and numpy operations the generator uses\<close>

text \<open>\<^verbatim>\<open>pl.col(name)\<close>: the cell of a column, or an error for a column the table lacks.\<close>

definition pl_col :: "row \<Rightarrow> string \<Rightarrow> error + cell" where
  "pl_col r name = (case map_of r name of None \<Rightarrow> Inl ColumnNotFoundError | Some c \<Rightarrow> Inr c)"

text \<open>\<^verbatim>\<open>.list.first()\<close>: the first element, null for a null or an empty list.\<close>

definition list_first :: "cell \<Rightarrow> real option" where
  "list_first c = (case c of None \<Rightarrow> None | Some [] \<Rightarrow> None | Some (x # xs) \<Rightarrow> Some x)"

definition is_not_null :: "cell \<Rightarrow> bool" where
  "is_not_null c = (c \<noteq> None)"

text \<open>\<^verbatim>\<open>pl.when(b).then(v)\<close> with no \<^verbatim>\<open>otherwise\<close>: null where the condition fails.\<close>

definition when_then :: "bool \<Rightarrow> cell \<Rightarrow> cell" where
  "when_then b v = (if b then v else None)"

text \<open>
  Modelled from the spec: \<^verbatim>\<open>pl.concat_list\<close> belongs to the polars library, which is
  not part of the sources. The spec reads the idiom of lines 41-42 as "concatenate the
  non-null columns' sequence values into one flat list": a null cell contributes nothing.
\<close>

definition concat_list :: "cell list \<Rightarrow> real list" where
  "concat_list cs = concat (map (\<lambda>c. case c of None \<Rightarrow> [] | Some xs \<Rightarrow> xs) cs)"

text \<open>\<^verbatim>\<open>pl.fold(acc, function, exprs)\<close>: a left fold over the expressions.\<close>

definition pl_fold :: "nat \<Rightarrow> (nat \<Rightarrow> nat \<Rightarrow> nat) \<Rightarrow> nat list \<Rightarrow> nat" where
  "pl_fold acc f exprs = foldl f acc exprs"

text \<open>
  \<^verbatim>\<open>LazyFrame.slice(offset, length)\<close>: \<^verbatim>\<open>length\<close> rows from \<^verbatim>\<open>offset\<close> on
  (a negative offset counts from the end); polars refuses a negative length.
\<close>

definition pl_slice :: "'a list \<Rightarrow> int \<Rightarrow> int \<Rightarrow> error + 'a list" where
  "pl_slice lf off len =
     (if len < 0 then Inl ValueError
      else let first = (if off < 0 then max 0 (int (length lf) + off) else off)
           in Inr (take (nat len) (drop (nat first) lf)))"

text \<open>
  A two-dimensional numpy array: its shape and its elements in row-major order.
  \<^verbatim>\<open>np.array(xs).reshape((k, -1))\<close> infers the second dimension as
  \<^verbatim>\<open>len(xs) / k\<close>; numpy raises when \<^verbatim>\<open>k\<close> is zero or does not divide the size.
\<close>

record ndarray =
  shape :: "nat \<times> nat"
  flat :: "real list"

definition np_reshape :: "real list \<Rightarrow> nat \<Rightarrow> error + ndarray" where
  "np_reshape xs k =
     (if k = 0 \<or> length xs mod k \<noteq> 0 then Inl ValueError
      else Inr \<lparr>shape = (k, length xs div k), flat = xs\<rparr>)"

text \<open>Running a fallible step over a list stops at the first error, as the exception does.\<close>

fun try_map :: "('a \<Rightarrow> error + 'b) \<Rightarrow> 'a list \<Rightarrow> error + 'b list" where
  "try_map f [] = Inr []"
| "try_map f (x # xs) =
     (case f x of
        Inl e \<Rightarrow> Inl e
      | Inr y \<Rightarrow> (case try_map f xs of Inl e \<Rightarrow> Inl e | Inr ys \<Rightarrow> Inr (y # ys)))"

section \<open>The record generator\<close>

text \<open>
  A row after \<^verbatim>\<open>with_columns\<close> (line 57): the source row and the three derived
  columns \<^verbatim>\<open>start\<close>, \<^verbatim>\<open>time_series\<close> and \<^verbatim>\<open>non_null_columns\<close>.
\<close>

record named_row =
  nr_source :: row
  nr_start :: "real option"
  nr_time_series :: "real list"
  nr_non_null_columns :: nat

definition with_columns :: "string \<Rightarrow> string list \<Rightarrow> row \<Rightarrow> error + named_row" where
  "with_columns timestemp_column columns r =
     (case pl_col r timestemp_column of
        Inl e \<Rightarrow> Inl e
      | Inr ts \<Rightarrow>
          (case try_map (pl_col r) columns of
             Inl e \<Rightarrow> Inl e
           | Inr cells \<Rightarrow>
               Inr \<lparr>nr_source = r,
                    nr_start = list_first ts,
                    nr_time_series = concat_list (map (\<lambda>c. when_then (is_not_null c) c) cells),
                    nr_non_null_columns =
                      pl_fold 0 (\<lambda>acc x. acc + x)
                        (map (\<lambda>c. if is_not_null c then 1 else 0) cells)\<rparr>))"

text \<open>
  The yielded dictionary (line 62). The item id is the text of the shard's path and of
  the row dictionary; the model keeps the two parts instead of their formatting.
\<close>

record ts_record =
  r_target :: ndarray
  r_start :: "real option"
  r_freq :: pyval
  r_item_id :: "string \<times> named_row"

definition yield_row :: "pyval \<Rightarrow> string \<Rightarrow> named_row \<Rightarrow> error + ts_record" where
  "yield_row freq shard row =
     (case np_reshape (nr_time_series row) (nr_non_null_columns row) of
        Inl e \<Rightarrow> Inl e
      | Inr data \<Rightarrow>
          Inr \<lparr>r_target = data, r_start = nr_start row, r_freq = freq, r_item_id = (shard, row)\<rparr>)"

text \<open>Lines 52-54: the slice of a file with \<^verbatim>\<open>rows\<close> rows.\<close>

definition offset_int :: "nat \<Rightarrow> real \<Rightarrow> int" where
  "offset_int rows offset = py_int (real rows * offset)"

definition slice_length :: "nat \<Rightarrow> real \<Rightarrow> real \<Rightarrow> int" where
  "slice_length rows offset end = py_int (real rows * end) - offset_int rows offset"

text \<open>Line 56: the rows of one file that the generator keeps.\<close>

definition selected_rows :: "real \<Rightarrow> real \<Rightarrow> row list \<Rightarrow> error + row list" where
  "selected_rows offset end lf =
     pl_slice lf (offset_int (length lf) offset) (slice_length (length lf) offset end)"

text \<open>Lines 50-62: the body of the loop over the shards, for one shard.\<close>

definition shard_records ::
  "string \<Rightarrow> string list \<Rightarrow> real \<Rightarrow> real \<Rightarrow> pyval \<Rightarrow> path_object \<Rightarrow> error + ts_record list" where
  "shard_records timestemp_column columns offset end freq shard =
     (case selected_rows offset end (po_table shard) of
        Inl e \<Rightarrow> Inl e
      | Inr lf \<Rightarrow>
          (case try_map (with_columns timestemp_column columns) lf of
             Inl e \<Rightarrow> Inl e
           | Inr named \<Rightarrow> try_map (yield_row freq (po_path shard)) named))"

fun generator_function ::
  "string \<Rightarrow> string list \<Rightarrow> real \<Rightarrow> real \<Rightarrow> pyval \<Rightarrow> path_object list \<Rightarrow> error + ts_record list" where
  "generator_function timestemp_column columns offset end freq [] = Inr []"
| "generator_function timestemp_column columns offset end freq (shard # shards) =
     (case shard_records timestemp_column columns offset end freq shard of
        Inl e \<Rightarrow> Inl e
      | Inr recs \<Rightarrow>
          (case generator_function timestemp_column columns offset end freq shards of
             Inl e \<Rightarrow> Inl e
           | Inr rest \<Rightarrow> Inr (recs @ rest)))"

datatype feature = Value string | Sequence feature

definition features :: "(string \<times> feature) list" where
  "features =
     [(''item_id'', Value ''string''),
      (''start'', Value ''float32''),
      (''freq'', Value ''string''),
      (''target'', Sequence (Sequence (Value ''float32'')))]"

text \<open>
  \<^verbatim>\<open>_from_polars\<close> (lines 24-73): the two range checks, then the generator and the
  schema. It takes no file: a refusal happens before any file is looked at.
\<close>

definition from_polars ::
  "string \<Rightarrow> string list \<Rightarrow> real \<Rightarrow> real \<Rightarrow> pyval \<Rightarrow>
     error + ((path_object list \<Rightarrow> error + ts_record list) \<times> (string \<times> feature) list)" where
  "from_polars timestemp_column columns offset end freq =
     (if offset > 1 \<or> offset < 0 then Inl ValueError
      else if end > 1 \<or> end < 0 then Inl ValueError
      else Inr (generator_function timestemp_column columns offset end freq, features))"

section \<open>The dataset builders\<close>

text \<open>
  A persisted dataset: the name in its info, its schema and its records (the cast of
  the values to the types of the schema on writing is left out). The storage maps a path
  to the dataset saved there.
\<close>

record hf_dataset =
  hf_dataset_name :: string
  hf_features :: "(string \<times> feature) list"
  hf_data :: "ts_record list"

type_synonym storage = "string \<Rightarrow> hf_dataset option"

text \<open>\<^verbatim>\<open>storage_path / dataset\<close>: an absolute right operand replaces the left one.\<close>

definition path_join :: "string \<Rightarrow> string \<Rightarrow> string" where
  "path_join a b = (case b of [] \<Rightarrow> a | c # cs \<Rightarrow> if c = CHR ''/'' then b else a @ ''/'' @ b)"

text \<open>\<^verbatim>\<open>folder_path.iterdir()\<close>: the entries of a folder, or an error for a missing one.\<close>

definition iterdir :: "filesystem \<Rightarrow> string \<Rightarrow> error + path_object list" where
  "iterdir fs folder_path =
     (case fs folder_path of None \<Rightarrow> Inl FileNotFoundError | Some entries \<Rightarrow> Inr entries)"

text \<open>
  \<^verbatim>\<open>datasets.Dataset.from_generator\<close> runs the generator over the shards and keeps
  what it yields; an exception of the generator aborts it. The worker count spreads the
  shards over processes; the model keeps the records in the order of the file list.
\<close>

definition from_generator ::
  "(path_object list \<Rightarrow> error + ts_record list) \<Rightarrow> (string \<times> feature) list \<Rightarrow>
     path_object list \<Rightarrow> nat option \<Rightarrow> error + hf_dataset" where
  "from_generator generator_func feats shards num_proc =
     (case generator_func shards of
        Inl e \<Rightarrow> Inl e
      | Inr recs \<Rightarrow> Inr \<lparr>hf_dataset_name = ''generator'', hf_features = feats, hf_data = recs\<rparr>)"

definition save_to_disk :: "storage \<Rightarrow> string \<Rightarrow> hf_dataset \<Rightarrow> storage" where
  "save_to_disk disk path ds = disk(path \<mapsto> ds)"


text \<open>
  \<^verbatim>\<open>num_workers if num_workers else os.cpu_count()\<close>: \<^verbatim>\<open>None\<close> and zero are
  both false.
\<close>

definition num_proc_of :: "nat option \<Rightarrow> nat option \<Rightarrow> nat option" where
  "num_proc_of num_workers cpu_count =
     (case num_workers of None \<Rightarrow> cpu_count | Some n \<Rightarrow> if n = 0 then cpu_count else Some n)"

text \<open>
  The enumeration of \<^verbatim>\<open>uni2ts.data.dataset\<close>, of which this module names
  \<^verbatim>\<open>NONE\<close> only.
\<close>

datatype SampleTimeSeriesType = NONE | UNIFORM | PROPORTIONAL

record SimplePolarsDatasetBuilder =
  p_dataset :: string
  p_timestemp_column :: string
  p_columns :: "string list"
  p_weight :: real
  p_sample_time_series :: "SampleTimeSeriesType option"
  p_storage_path :: string

record SimpleEvalDatasetBuilder =
  e_dataset :: string
  e_timestemp_column :: string
  e_columns :: "string list"
  e_offset :: "int option"
  e_windows :: "int option"
  e_distance :: "int option"
  e_prediction_length :: "int option"
  e_context_length :: "int option"
  e_patch_size :: "int option"
  e_storage_path :: string

text \<open>Lines 88-104. The result is the storage after the write.\<close>

definition SimplePolarsDatasetBuilder_build_dataset ::
  "SimplePolarsDatasetBuilder \<Rightarrow> nat option \<Rightarrow> filesystem \<Rightarrow> storage \<Rightarrow>
     string \<Rightarrow> real \<Rightarrow> real \<Rightarrow> pyval \<Rightarrow> nat option \<Rightarrow> error + storage" where
  "SimplePolarsDatasetBuilder_build_dataset self cpu_count fs disk folder_path offset end freq num_workers =
     (case from_polars (p_timestemp_column self) (p_columns self) offset end freq of
        Inl e \<Rightarrow> Inl e
      | Inr (generator_func, feats) \<Rightarrow>
          (case iterdir fs folder_path of
             Inl e \<Rightarrow> Inl e
           | Inr entries \<Rightarrow>
               (let polars_files =
                      filter (\<lambda>path_object. po_is_file path_object \<and> po_suffix path_object = ''.parquet'')
                        entries
                in case from_generator generator_func feats polars_files
                          (num_proc_of num_workers cpu_count) of
                     Inl e \<Rightarrow> Inl e
                   | Inr hf \<Rightarrow>
                       Inr (save_to_disk disk (path_join (p_storage_path self) (p_dataset self))
                              (hf\<lparr>hf_dataset_name := p_dataset self\<rparr>)))))"

text \<open>Lines 135-151.\<close>

definition SimpleEvalDatasetBuilder_build_dataset ::
  "SimpleEvalDatasetBuilder \<Rightarrow> nat option \<Rightarrow> filesystem \<Rightarrow> storage \<Rightarrow>
     string \<Rightarrow> real \<Rightarrow> real \<Rightarrow> pyval \<Rightarrow> nat option \<Rightarrow> error + storage" where
  "SimpleEvalDatasetBuilder_build_dataset self cpu_count fs disk folder_path offset end freq num_workers =
     (case from_polars (e_timestemp_column self) (e_columns self) offset end freq of
        Inl e \<Rightarrow> Inl e
      | Inr (generator_func, feats) \<Rightarrow>
          (case iterdir fs folder_path of
             Inl e \<Rightarrow> Inl e
           | Inr entries \<Rightarrow>
               (let polars_files =
                      filter (\<lambda>path_object. po_is_file path_object \<and> po_suffix path_object = ''.parquet'')
                        entries
                in case from_generator generator_func feats polars_files
                          (num_proc_of num_workers cpu_count) of
                     Inl e \<Rightarrow> Inl e
                   | Inr hf \<Rightarrow>
                       Inr (save_to_disk disk (path_join (e_storage_path self) (e_dataset self))
                              (hf\<lparr>hf_dataset_name := e_dataset self\<rparr>)))))"






section \<open>The driver\<close>





section \<open>Notions used in the statements\<close>

text \<open>The source row a record was made from, read back from its item id.\<close>

definition source_row :: "ts_record \<Rightarrow> row" where
  "source_row rec = nr_source (snd (r_item_id rec))"

text \<open>The rows of a table with index from \<^verbatim>\<open>lo\<close> up to, and without, \<^verbatim>\<open>hi\<close>.\<close>

definition row_range :: "'a list \<Rightarrow> nat \<Rightarrow> nat \<Rightarrow> 'a list" where
  "row_range lf lo hi = map (\<lambda>i. lf ! i) [lo ..< hi]"

text \<open>The sequences of the value columns that are not null in a row, in column order.\<close>

definition non_null_cells :: "string list \<Rightarrow> row \<Rightarrow> real list list" where
  "non_null_cells columns r =
     concat (map (\<lambda>name. case map_of r name of Some (Some xs) \<Rightarrow> [xs] | _ \<Rightarrow> []) columns)"

text \<open>A row converts when lines 57 and 60 raise nothing on it.\<close>

definition row_converts :: "string \<Rightarrow> string list \<Rightarrow> row \<Rightarrow> bool" where
  "row_converts timestemp_column columns r =
     (case with_columns timestemp_column columns r of
        Inl e \<Rightarrow> False
      | Inr nr \<Rightarrow>
          (case np_reshape (nr_time_series nr) (nr_non_null_columns nr) of
             Inl e \<Rightarrow> False
           | Inr d \<Rightarrow> True))"


subsection \<open>Example data\<close>

text \<open>
  A folder with one parquet file of ten rows and a text file beside it. Column
  \<^verbatim>\<open>b\<close> is null in the odd rows.
\<close>

definition example_row :: "nat \<Rightarrow> row" where
  "example_row i =
     [(''ts'', Some [real i, real i + 1]),
      (''a'', Some [1, 2]),
      (''b'', if even i then Some [3, 4] else None)]"

definition example_file :: path_object where
  "example_file =
     \<lparr>po_path = ''data/part0.parquet'', po_is_file = True, po_suffix = ''.parquet'',
      po_table = [example_row 0, example_row 1, example_row 2, example_row 3, example_row 4,
                  example_row 5, example_row 6, example_row 7, example_row 8, example_row 9]\<rparr>"

definition example_fs :: filesystem where
  "example_fs folder =
     (if folder = ''data''
      then Some [example_file,
                 \<lparr>po_path = ''data/notes.txt'', po_is_file = True, po_suffix = ''.txt'', po_table = []\<rparr>]
      else None)"


text \<open>A row whose value columns are all null, and a file that holds only this row.\<close>

definition all_null_row :: row where
  "all_null_row = [(''ts'', Some [0, 1]), (''a'', None), (''b'', None)]"

definition all_null_file :: path_object where
  "all_null_file =
     \<lparr>po_path = ''data/part1.parquet'', po_is_file = True, po_suffix = ''.parquet'',
      po_table = [all_null_row]\<rparr>"

section \<open>Facts about the building blocks\<close>

lemma from_polars_Inl:
  "from_polars timestemp_column columns offset end freq = Inl e \<longleftrightarrow>
     e = ValueError \<and> (offset < 0 \<or> 1 < offset \<or> end < 0 \<or> 1 < end)"
  by (auto simp: from_polars_def)

lemma from_polars_Inr:
  "from_polars timestemp_column columns offset end freq = Inr gf \<longleftrightarrow>
     gf = (generator_function timestemp_column columns offset end freq, features) \<and>
     0 \<le> offset \<and> offset \<le> 1 \<and> 0 \<le> end \<and> end \<le> 1"
  by (auto simp: from_polars_def)

section \<open>Validation of the fractions\<close>

text \<open>
  C5. Constructing the generator fails with the validation error exactly when
  \<^verbatim>\<open>offset\<close> or \<^verbatim>\<open>end\<close> lies outside the closed interval from 0 to 1, and
  succeeds (returning the generator and the schema) exactly when both lie inside it, the
  bounds 0 and 1 included. The error comes before any file is touched: for a fraction
  outside the interval both \<^verbatim>\<open>build_dataset\<close> methods return it for every file
  system and every storage, a missing folder included.
\<close>

theorem from_polars_validation:
  "(from_polars timestemp_column columns offset end freq = Inl ValueError
      \<longleftrightarrow> (offset < 0 \<or> 1 < offset \<or> end < 0 \<or> 1 < end))
   \<and> (from_polars timestemp_column columns offset end freq
         = Inr (generator_function timestemp_column columns offset end freq, features)
      \<longleftrightarrow> (0 \<le> offset \<and> offset \<le> 1 \<and> 0 \<le> end \<and> end \<le> 1))
   \<and> (offset < 0 \<or> 1 < offset \<or> end < 0 \<or> 1 < end \<longrightarrow>
        (\<forall>fs disk. SimplePolarsDatasetBuilder_build_dataset p cpu_count fs disk folder_path
                      offset end freq num_workers = Inl ValueError
                  \<and> SimpleEvalDatasetBuilder_build_dataset e cpu_count fs disk folder_path
                      offset end freq num_workers = Inl ValueError))"
proof -
  have bad: "from_polars ts cs offset end freq = Inl ValueError"
    if "offset < 0 \<or> 1 < offset \<or> end < 0 \<or> 1 < end" for ts cs
    using that by (simp add: from_polars_Inl)
  show ?thesis
    by (auto simp: from_polars_Inl from_polars_Inr bad
        SimplePolarsDatasetBuilder_build_dataset_def SimpleEvalDatasetBuilder_build_dataset_def)
qed

theorem from_polars_validation_witness:
  "from_polars ''ts'' [''a''] 0 1 (PyStr ''H'')
     = Inr (generator_function ''ts'' [''a''] 0 1 (PyStr ''H''), features)
   \<and> from_polars ''ts'' [''a''] (3 / 2) 1 (PyStr ''H'') = Inl ValueError
   \<and> from_polars ''ts'' [''a''] 0 (- (1 / 10)) (PyStr ''H'') = Inl ValueError
   \<and> SimplePolarsDatasetBuilder_build_dataset
        \<lparr>p_dataset = ''ds'', p_timestemp_column = ''ts'', p_columns = [''a''], p_weight = 1,
         p_sample_time_series = Some NONE, p_storage_path = ''root''\<rparr>
        None (\<lambda>folder. None) (\<lambda>path. None) ''data'' (3 / 2) 1 (PyStr ''H'') None = Inl ValueError"
  using from_polars_validation [of "''ts''" "[''a'']" 0 1 "PyStr ''H''"]
    from_polars_validation [of "''ts''" "[''a'']" "3 / 2" 1 "PyStr ''H''"
      "\<lparr>p_dataset = ''ds'', p_timestemp_column = ''ts'', p_columns = [''a''], p_weight = 1,
         p_sample_time_series = Some NONE, p_storage_path = ''root''\<rparr>" None "''data''" None]
    from_polars_validation [of "''ts''" "[''a'']" 0 "- (1 / 10)" "PyStr ''H''"]
  by simp

lemma py_int_nonneg: "0 \<le> x \<Longrightarrow> py_int x = \<lfloor>x\<rfloor>"
  by (simp add: py_int_def)

lemma slice_length_floor:
  "0 \<le> offset \<Longrightarrow> 0 \<le> end \<Longrightarrow>
     slice_length rows offset end = \<lfloor>real rows * end\<rfloor> - \<lfloor>real rows * offset\<rfloor>"
  by (simp add: slice_length_def offset_int_def py_int_nonneg)

lemma try_map_Inr: "try_map f xs = Inr ys \<longleftrightarrow> list_all2 (\<lambda>x y. f x = Inr y) xs ys"
proof (induction xs arbitrary: ys)
  case Nil
  show ?case by auto
next
  case (Cons x xs)
  show ?case
    by (cases "f x"; cases "try_map f xs") (auto simp: Cons.IH [symmetric] list_all2_Cons1)
qed

lemma try_map_total:
  "(\<And>x. x \<in> set xs \<Longrightarrow> \<exists>y. f x = Inr y) \<Longrightarrow> \<exists>ys. try_map f xs = Inr ys"
proof (induction xs)
  case Nil
  show ?case by simp
next
  case (Cons x xs)
  obtain y where y: "f x = Inr y" using Cons.prems by auto
  obtain ys where ys: "try_map f xs = Inr ys" using Cons by auto
  show ?case by (simp add: y ys)
qed

lemma list_all2_in_right: "list_all2 P xs ys \<Longrightarrow> y \<in> set ys \<Longrightarrow> \<exists>x\<in>set xs. P x y"
  by (induction xs ys rule: list_all2_induct) auto

lemma list_all2_map_back: "list_all2 (\<lambda>x y. g y = x) xs ys \<Longrightarrow> map g ys = xs"
  by (induction xs ys rule: list_all2_induct) auto

lemma row_range_take_drop:
  "hi \<le> length lf \<Longrightarrow> take (hi - lo) (drop lo lf) = row_range lf lo hi"
  by (rule nth_equalityI) (auto simp: row_range_def)

lemma floor_fraction_bounds:
  assumes "0 \<le> x" and "x \<le> 1"
  shows "0 \<le> \<lfloor>real n * x\<rfloor>" and "\<lfloor>real n * x\<rfloor> \<le> int n"
proof -
  show "0 \<le> \<lfloor>real n * x\<rfloor>" using assms by simp
  have "real n * x \<le> real n * 1" using assms by (intro mult_left_mono) auto
  then have "\<lfloor>real n * x\<rfloor> \<le> \<lfloor>real n\<rfloor>" by (intro floor_mono) simp
  then show "\<lfloor>real n * x\<rfloor> \<le> int n" by simp
qed

lemma selected_rows_range:
  assumes "0 \<le> offset" and "offset \<le> end" and "end \<le> 1"
  shows "selected_rows offset end lf
           = Inr (row_range lf (nat \<lfloor>real (length lf) * offset\<rfloor>) (nat \<lfloor>real (length lf) * end\<rfloor>))"
proof -
  let ?n = "length lf"
  let ?lo = "\<lfloor>real ?n * offset\<rfloor>" and ?hi = "\<lfloor>real ?n * end\<rfloor>"
  have e0: "0 \<le> end" and o1: "offset \<le> 1" using assms by auto
  have lo: "0 \<le> ?lo" using floor_fraction_bounds(1) [OF assms(1) o1] .
  have hi: "?hi \<le> int ?n" using floor_fraction_bounds(2) [OF e0 assms(3)] .
  have "real ?n * offset \<le> real ?n * end" using assms by (intro mult_left_mono) auto
  then have le: "?lo \<le> ?hi" by (rule floor_mono)
  have len: "slice_length ?n offset end = ?hi - ?lo"
    using assms(1) e0 by (rule slice_length_floor)
  have off: "offset_int ?n offset = ?lo"
    using assms(1) by (simp add: offset_int_def py_int_nonneg)
  have "nat (?hi - ?lo) = nat ?hi - nat ?lo" using lo le by (simp add: nat_diff_distrib)
  moreover have "nat ?hi \<le> ?n" using hi by simp
  ultimately show ?thesis
    using lo le by (simp add: selected_rows_def pl_slice_def len off row_range_take_drop)
qed


lemma selected_rows_all: "selected_rows 0 1 lf = Inr lf"
  by (simp add: selected_rows_def pl_slice_def slice_length_def offset_int_def py_int_def)

lemma selected_rows_subset: "selected_rows offset end lf = Inr rows \<Longrightarrow> set rows \<subseteq> set lf"
  by (auto simp: selected_rows_def pl_slice_def Let_def split: if_splits
      dest!: in_set_takeD in_set_dropD)

lemma with_columns_source:
  "with_columns timestemp_column columns r = Inr nr \<Longrightarrow>
     nr_source nr = r \<and> (\<exists>c. map_of r timestemp_column = Some c \<and> nr_start nr = list_first c)"
  by (auto simp: with_columns_def pl_col_def split: sum.splits option.splits)

lemma yield_row_fields:
  "yield_row freq shard nr = Inr rec \<Longrightarrow>
     r_freq rec = freq \<and> r_start rec = nr_start nr \<and> r_item_id rec = (shard, nr)"
  by (auto simp: yield_row_def split: sum.splits)

lemma shard_records_Inr:
  "shard_records timestemp_column columns offset end freq shard = Inr recs \<longleftrightarrow>
     (\<exists>lf named. selected_rows offset end (po_table shard) = Inr lf
        \<and> try_map (with_columns timestemp_column columns) lf = Inr named
        \<and> try_map (yield_row freq (po_path shard)) named = Inr recs)"
  by (auto simp: shard_records_def split: sum.splits)

text \<open>The records of a shard, one per selected row and in the same order.\<close>

lemma shard_records_rows:
  assumes "shard_records timestemp_column columns offset end freq shard = Inr recs"
  shows "\<exists>lf. selected_rows offset end (po_table shard) = Inr lf
           \<and> list_all2 (\<lambda>r rec. source_row rec = r \<and> r_freq rec = freq
                  \<and> fst (r_item_id rec) = po_path shard
                  \<and> (\<exists>c. map_of r timestemp_column = Some c \<and> r_start rec = list_first c)) lf recs"
proof -
  obtain lf named where sel: "selected_rows offset end (po_table shard) = Inr lf"
    and wc: "list_all2 (\<lambda>r nr. with_columns timestemp_column columns r = Inr nr) lf named"
    and yr: "list_all2 (\<lambda>nr rec. yield_row freq (po_path shard) nr = Inr rec) named recs"
    using assms by (auto simp: shard_records_Inr try_map_Inr)
  have "list_all2 ((\<lambda>r nr. with_columns timestemp_column columns r = Inr nr)
           OO (\<lambda>nr rec. yield_row freq (po_path shard) nr = Inr rec)) lf recs"
    using wc yr by (auto simp: list.rel_compp)
  then have "list_all2 (\<lambda>r rec. source_row rec = r \<and> r_freq rec = freq
                  \<and> fst (r_item_id rec) = po_path shard
                  \<and> (\<exists>c. map_of r timestemp_column = Some c \<and> r_start rec = list_first c)) lf recs"
  proof (rule list_all2_mono)
    fix r rec
    assume "((\<lambda>r nr. with_columns timestemp_column columns r = Inr nr)
           OO (\<lambda>nr rec. yield_row freq (po_path shard) nr = Inr rec)) r rec"
    then obtain nr where a: "with_columns timestemp_column columns r = Inr nr"
      and b: "yield_row freq (po_path shard) nr = Inr rec" by auto
    show "source_row rec = r \<and> r_freq rec = freq
                  \<and> fst (r_item_id rec) = po_path shard
                  \<and> (\<exists>c. map_of r timestemp_column = Some c \<and> r_start rec = list_first c)"
      using with_columns_source [OF a] yield_row_fields [OF b] by (auto simp: source_row_def)
  qed
  with sel show ?thesis by blast
qed

lemma shard_records_total:
  assumes "selected_rows offset end (po_table shard) = Inr lf"
    and "\<And>r. r \<in> set lf \<Longrightarrow> row_converts timestemp_column columns r"
  shows "\<exists>recs. shard_records timestemp_column columns offset end freq shard = Inr recs"
proof -
  have "\<exists>nr. with_columns timestemp_column columns r = Inr nr" if "r \<in> set lf" for r
    using assms(2) [OF that] by (auto simp: row_converts_def split: sum.splits)
  then obtain named where named: "try_map (with_columns timestemp_column columns) lf = Inr named"
    using try_map_total [of lf "with_columns timestemp_column columns"] by blast
  have "\<exists>rec. yield_row freq (po_path shard) nr = Inr rec" if "nr \<in> set named" for nr
  proof -
    from named have "list_all2 (\<lambda>r nr. with_columns timestemp_column columns r = Inr nr) lf named"
      by (simp add: try_map_Inr)
    from list_all2_in_right [OF this that]
    obtain r where "r \<in> set lf" and "with_columns timestemp_column columns r = Inr nr"
      by blast
    then show ?thesis
      using assms(2) [of r] by (auto simp: row_converts_def yield_row_def split: sum.splits)
  qed
  then obtain recs where "try_map (yield_row freq (po_path shard)) named = Inr recs"
    using try_map_total [of named "yield_row freq (po_path shard)"] by blast
  with assms(1) named show ?thesis by (auto simp: shard_records_Inr)
qed

section \<open>The row range of a split\<close>



section \<open>Fractions in the wrong order\<close>

text \<open>
  C10, amended. Construction never compares the two fractions: for
  \<open>0 \<le> end < offset \<le> 1\<close> it succeeds. The slice length it later computes for a file
  is \<open>\<lfloor>rows * end\<rfloor> - \<lfloor>rows * offset\<rfloor>\<close>, which is never positive, and negative as
  soon as \<open>rows * (offset - end) \<ge> 1\<close>; the generator hands it to the slice as it is.
  The length need not be negative: ten rows with \<open>offset = 0.85\<close> and \<open>end = 0.8\<close>
  give the length zero.
\<close>

theorem reversed_fractions_accepted:
  assumes "0 \<le> end" and "end < offset" and "offset \<le> 1"
  shows "from_polars timestemp_column columns offset end freq
           = Inr (generator_function timestemp_column columns offset end freq, features)
         \<and> slice_length rows offset end = \<lfloor>real rows * end\<rfloor> - \<lfloor>real rows * offset\<rfloor>
         \<and> slice_length rows offset end \<le> 0
         \<and> (1 \<le> real rows * (offset - end) \<longrightarrow> slice_length rows offset end < 0)
         \<and> selected_rows offset end lf
             = pl_slice lf (offset_int (length lf) offset) (slice_length (length lf) offset end)"
proof -
  have ok: "from_polars timestemp_column columns offset end freq
           = Inr (generator_function timestemp_column columns offset end freq, features)"
    using assms by (simp add: from_polars_Inr)
  have len: "slice_length rows offset end = \<lfloor>real rows * end\<rfloor> - \<lfloor>real rows * offset\<rfloor>"
    using assms by (simp add: slice_length_floor)
  have "real rows * end \<le> real rows * offset"
    using assms by (simp add: mult_left_mono)
  then have le: "\<lfloor>real rows * end\<rfloor> \<le> \<lfloor>real rows * offset\<rfloor>"
    by (rule floor_mono)
  have neg: "\<lfloor>real rows * end\<rfloor> < \<lfloor>real rows * offset\<rfloor>" if "1 \<le> real rows * (offset - end)"
  proof -
    have "real rows * end + 1 \<le> real rows * offset"
      using that by (simp add: algebra_simps)
    then have "\<lfloor>real rows * end + 1\<rfloor> \<le> \<lfloor>real rows * offset\<rfloor>"
      by (rule floor_mono)
    then show ?thesis by simp
  qed
  show ?thesis
    using ok len le neg by (simp add: selected_rows_def)
qed

theorem reversed_fractions_accepted_witness:
  "from_polars ''ts'' [''a''] (4 / 5) (1 / 5) (PyStr ''H'')
     = Inr (generator_function ''ts'' [''a''] (4 / 5) (1 / 5) (PyStr ''H''), features)
   \<and> slice_length 10 (4 / 5) (1 / 5) = - 6
   \<and> slice_length 10 (4 / 5) (1 / 5) < 0"
  using reversed_fractions_accepted [of "1 / 5" "4 / 5" "''ts''" "[''a'']" "PyStr ''H''" 10 "[]"]
  by simp

theorem reversed_fractions_zero_length_counterexample:
  "(0::real) \<le> 4 / 5 \<and> (4 / 5 :: real) < 17 / 20 \<and> (17 / 20 :: real) \<le> 1
   \<and> from_polars ''ts'' [''a''] (17 / 20) (4 / 5) (PyStr ''H'')
       = Inr (generator_function ''ts'' [''a''] (17 / 20) (4 / 5) (PyStr ''H''), features)
   \<and> slice_length 10 (17 / 20) (4 / 5) = 0
   \<and> \<not> slice_length 10 (17 / 20) (4 / 5) < 0"
  by (simp add: from_polars_def slice_length_def offset_int_def py_int_def)

section \<open>The two \<^verbatim>\<open>build_dataset\<close> methods\<close>

text \<open>
  C9. For a training builder and an eval builder that agree on the dataset name, the
  timestamp column, the value columns and the storage path, \<^verbatim>\<open>build_dataset\<close>
  called with the same arguments on the same files and storage gives the same result:
  the same error, or the same storage after the write (the same files listed, the same
  records, the same dataset at the same path).
\<close>

theorem build_dataset_equivalent:
  assumes "p_dataset p = e_dataset e"
    and "p_timestemp_column p = e_timestemp_column e"
    and "p_columns p = e_columns e"
    and "p_storage_path p = e_storage_path e"
  shows "SimplePolarsDatasetBuilder_build_dataset p cpu_count fs disk folder_path offset end freq num_workers
       = SimpleEvalDatasetBuilder_build_dataset e cpu_count fs disk folder_path offset end freq num_workers"
  unfolding SimplePolarsDatasetBuilder_build_dataset_def SimpleEvalDatasetBuilder_build_dataset_def assms
  by (rule refl)

theorem build_dataset_equivalent_witness:
  "SimplePolarsDatasetBuilder_build_dataset
     \<lparr>p_dataset = ''ds'', p_timestemp_column = ''ts'', p_columns = [''a'', ''b''], p_weight = 1,
      p_sample_time_series = Some NONE, p_storage_path = ''root''\<rparr>
     None example_fs (\<lambda>path. None) ''data'' 0 (8 / 10) (PyStr ''H'') (Some 2)
   = SimpleEvalDatasetBuilder_build_dataset
     \<lparr>e_dataset = ''ds'', e_timestemp_column = ''ts'', e_columns = [''a'', ''b''],
      e_offset = Some 1, e_windows = Some 2, e_distance = None, e_prediction_length = None,
      e_context_length = None, e_patch_size = None, e_storage_path = ''root''\<rparr>
     None example_fs (\<lambda>path. None) ''data'' 0 (8 / 10) (PyStr ''H'') (Some 2)"
  using build_dataset_equivalent [of
     "\<lparr>p_dataset = ''ds'', p_timestemp_column = ''ts'', p_columns = [''a'', ''b''], p_weight = 1,
      p_sample_time_series = Some NONE, p_storage_path = ''root''\<rparr>"
     "\<lparr>e_dataset = ''ds'', e_timestemp_column = ''ts'', e_columns = [''a'', ''b''],
      e_offset = Some 1, e_windows = Some 2, e_distance = None, e_prediction_length = None,
      e_context_length = None, e_patch_size = None, e_storage_path = ''root''\<rparr>"
     None example_fs "\<lambda>path. None" "''data''" 0 "8 / 10" "PyStr ''H''" "Some 2"]
  by simp

section \<open>Loading with a transform map\<close>




section \<open>The derived columns of a row\<close>

lemma pl_col_Inr: "pl_col r name = Inr c \<longleftrightarrow> map_of r name = Some c"
  by (auto simp: pl_col_def split: option.splits)

lemma try_map_pl_col:
  "try_map (pl_col r) columns = Inr cells \<longleftrightarrow> map (map_of r) columns = map Some cells"
  by (auto simp: try_map_Inr pl_col_Inr list_all2_conv_all_nth list_eq_iff_nth_eq)

lemma try_map_pl_col_total:
  "(\<And>name. name \<in> set columns \<Longrightarrow> map_of r name \<noteq> None) \<Longrightarrow>
     \<exists>cells. try_map (pl_col r) columns = Inr cells"
  by (rule try_map_total) (auto simp: pl_col_def split: option.splits)

lemma foldl_flags:
  "foldl (\<lambda>acc x. acc + x) a (map (\<lambda>c. if is_not_null c then 1 else 0) cells)
     = a + length (concat (map (\<lambda>c. case c of None \<Rightarrow> [] | Some xs \<Rightarrow> [xs]) cells))"
  by (induction cells arbitrary: a) (auto simp: is_not_null_def)

lemma concat_list_when:
  "concat_list (map (\<lambda>c. when_then (is_not_null c) c) cells)
     = concat (concat (map (\<lambda>c. case c of None \<Rightarrow> [] | Some xs \<Rightarrow> [xs]) cells))"
  by (induction cells) (auto simp: concat_list_def when_then_def is_not_null_def)

lemma non_null_cells_of_cells:
  "map (map_of r) columns = map Some cells \<Longrightarrow>
     non_null_cells columns r = concat (map (\<lambda>c. case c of None \<Rightarrow> [] | Some xs \<Rightarrow> [xs]) cells)"
proof (induction columns arbitrary: cells)
  case Nil
  then show ?case by (simp add: non_null_cells_def)
next
  case (Cons name columns)
  then obtain c cs where cells: "cells = c # cs" and c: "map_of r name = Some c"
    and cs: "map (map_of r) columns = map Some cs"
    by (cases cells) auto
  have "non_null_cells columns r = concat (map (\<lambda>c. case c of None \<Rightarrow> [] | Some xs \<Rightarrow> [xs]) cs)"
    using Cons.IH [OF cs] .
  then show ?case
    using c by (cases c) (simp_all add: non_null_cells_def cells)
qed

text \<open>What line 57 computes for a row, in terms of the row's non-null value cells.\<close>

lemma with_columns_derived:
  assumes "with_columns timestemp_column columns r = Inr nr"
  shows "nr_time_series nr = concat (non_null_cells columns r)"
    and "nr_non_null_columns nr = length (non_null_cells columns r)"
proof -
  from assms obtain ts cells where "pl_col r timestemp_column = Inr ts"
    and cells: "try_map (pl_col r) columns = Inr cells"
    and nr: "nr = \<lparr>nr_source = r, nr_start = list_first ts,
              nr_time_series = concat_list (map (\<lambda>c. when_then (is_not_null c) c) cells),
              nr_non_null_columns = pl_fold 0 (\<lambda>acc x. acc + x)
                        (map (\<lambda>c. if is_not_null c then 1 else 0) cells)\<rparr>"
    by (auto simp: with_columns_def split: sum.splits)
  have nn: "non_null_cells columns r = concat (map (\<lambda>c. case c of None \<Rightarrow> [] | Some xs \<Rightarrow> [xs]) cells)"
    using cells by (simp add: try_map_pl_col non_null_cells_of_cells)
  show "nr_time_series nr = concat (non_null_cells columns r)"
    by (simp add: nr nn concat_list_when)
  show "nr_non_null_columns nr = length (non_null_cells columns r)"
    by (simp add: nr nn pl_fold_def foldl_flags)
qed

lemma with_columns_total:
  assumes "map_of r timestemp_column \<noteq> None"
    and "\<And>name. name \<in> set columns \<Longrightarrow> map_of r name \<noteq> None"
  shows "\<exists>nr. with_columns timestemp_column columns r = Inr nr"
proof -
  obtain cells where "try_map (pl_col r) columns = Inr cells"
    using try_map_pl_col_total [OF assms(2)] by blast
  then show ?thesis
    using assms(1) by (auto simp: with_columns_def pl_col_def split: option.splits)
qed


section \<open>The shape of the target matrix\<close>



section \<open>A row with no value at all\<close>

text \<open>
  C2. The claim asks that a row whose value columns are all null does not make the
  generator raise. The code does raise on it: line 57 computes an empty time series and
  a non-null count of zero, and the reshape of line 60 to \<open>(0, -1)\<close> fails with a
  value error, for the row and so for the whole generator run over its file.
\<close>

theorem all_null_row_raises:
  assumes "map_of r timestemp_column \<noteq> None"
    and "\<forall>name \<in> set columns. map_of r name = Some None"
  shows "\<exists>nr. with_columns timestemp_column columns r = Inr nr
           \<and> nr_non_null_columns nr = 0 \<and> nr_time_series nr = []
           \<and> yield_row freq shard nr = Inl ValueError
           \<and> \<not> row_converts timestemp_column columns r"
proof -
  have "\<And>name. name \<in> set columns \<Longrightarrow> map_of r name \<noteq> None"
    using assms(2) by auto
  then obtain nr where wc: "with_columns timestemp_column columns r = Inr nr"
    using with_columns_total [of r timestemp_column columns] assms(1) by blast
  have "map (\<lambda>name. case map_of r name of Some (Some xs) \<Rightarrow> [xs] | _ \<Rightarrow> []) columns
          = map (\<lambda>name. []) columns"
    using assms(2) by (intro map_cong) auto
  then have "non_null_cells columns r = []"
    by (simp add: non_null_cells_def)
  then have "nr_time_series nr = []" and "nr_non_null_columns nr = 0"
    using with_columns_derived [OF wc] by simp_all
  then show ?thesis
    using wc by (auto simp: yield_row_def np_reshape_def row_converts_def)
qed

theorem all_null_row_raises_witness:
  "(\<exists>nr. with_columns ''ts'' [''a'', ''b''] all_null_row = Inr nr
       \<and> yield_row (PyStr ''H'') ''data/part1.parquet'' nr = Inl ValueError)
   \<and> generator_function ''ts'' [''a'', ''b''] 0 1 (PyStr ''H'') [all_null_file] = Inl ValueError"
proof -
  have "generator_function ''ts'' [''a'', ''b''] 0 1 (PyStr ''H'') [all_null_file] = Inl ValueError"
    by (simp add: shard_records_def selected_rows_all all_null_file_def all_null_row_def
        with_columns_def pl_col_def concat_list_def when_then_def is_not_null_def pl_fold_def
        yield_row_def np_reshape_def)
  moreover have "map_of all_null_row ''ts'' \<noteq> None"
    "\<forall>name \<in> set [''a'', ''b'']. map_of all_null_row name = Some None"
    by (simp_all add: all_null_row_def)
  ultimately show ?thesis
    using all_null_row_raises [of all_null_row "''ts''" "[''a'', ''b'']" "PyStr ''H''" "''data/part1.parquet''"]
    by blast
qed

section \<open>The generator over a list of files\<close>

lemma generator_function_Inr:
  "generator_function timestemp_column columns offset end freq shards = Inr recs \<longleftrightarrow>
     (\<exists>recss. list_all2 (\<lambda>shard rs. shard_records timestemp_column columns offset end freq shard = Inr rs)
                shards recss \<and> recs = concat recss)"
proof (induction shards arbitrary: recs)
  case Nil
  show ?case by auto
next
  case (Cons shard shards)
  let ?ok = "\<lambda>shard rs. shard_records timestemp_column columns offset end freq shard = Inr rs"
  have IH1: "\<exists>zs. list_all2 ?ok shards zs \<and> rest = concat zs"
    if "generator_function timestemp_column columns offset end freq shards = Inr rest" for rest
    using Cons.IH that by blast
  have IH2: "generator_function timestemp_column columns offset end freq shards = Inr (concat zs)"
    if "list_all2 ?ok shards zs" for zs
    using Cons.IH that by blast
  show ?case
  proof
    assume "generator_function timestemp_column columns offset end freq (shard # shards) = Inr recs"
    then obtain b rest where b: "?ok shard b"
      and rest: "generator_function timestemp_column columns offset end freq shards = Inr rest"
      and recs: "recs = b @ rest"
      by (auto split: sum.splits)
    from IH1 [OF rest] obtain zs where "list_all2 ?ok shards zs" and "rest = concat zs" by blast
    with b recs have "list_all2 ?ok (shard # shards) (b # zs) \<and> recs = concat (b # zs)" by simp
    then show "\<exists>recss. list_all2 ?ok (shard # shards) recss \<and> recs = concat recss" by blast
  next
    assume "\<exists>recss. list_all2 ?ok (shard # shards) recss \<and> recs = concat recss"
    then obtain b zs where b: "?ok shard b" and zs: "list_all2 ?ok shards zs"
      and recs: "recs = b @ concat zs"
      by (auto simp: list_all2_Cons1)
    show "generator_function timestemp_column columns offset end freq (shard # shards) = Inr recs"
      using b IH2 [OF zs] recs by simp
  qed
qed

text \<open>A shard whose selected rows all convert: its records, row by row.\<close>

lemma shard_records_range:
  assumes "0 \<le> offset" and "offset \<le> end" and "end \<le> 1"
    and "\<And>r. r \<in> set (po_table shard) \<Longrightarrow> row_converts timestemp_column columns r"
  shows "\<exists>recs. shard_records timestemp_column columns offset end freq shard = Inr recs
           \<and> map source_row recs
               = row_range (po_table shard)
                   (nat \<lfloor>real (length (po_table shard)) * offset\<rfloor>)
                   (nat \<lfloor>real (length (po_table shard)) * end\<rfloor>)
           \<and> (\<forall>rec \<in> set recs. r_freq rec = freq)"
proof -
  let ?rng = "row_range (po_table shard)
                   (nat \<lfloor>real (length (po_table shard)) * offset\<rfloor>)
                   (nat \<lfloor>real (length (po_table shard)) * end\<rfloor>)"
  have sel: "selected_rows offset end (po_table shard) = Inr ?rng"
    using assms(1-3) by (rule selected_rows_range)
  have "row_converts timestemp_column columns r" if "r \<in> set ?rng" for r
    using selected_rows_subset [OF sel] that assms(4) by blast
  then obtain recs where recs: "shard_records timestemp_column columns offset end freq shard = Inr recs"
    using shard_records_total [OF sel] by blast
  from shard_records_rows [OF recs] sel
  have l2: "list_all2 (\<lambda>r rec. source_row rec = r \<and> r_freq rec = freq
                  \<and> fst (r_item_id rec) = po_path shard
                  \<and> (\<exists>c. map_of r timestemp_column = Some c \<and> r_start rec = list_first c)) ?rng recs"
    by auto
  then have "list_all2 (\<lambda>r rec. source_row rec = r) ?rng recs"
    by (rule list_all2_mono) simp
  then have m: "map source_row recs = ?rng"
    by (rule list_all2_map_back)
  have "r_freq rec = freq" if "rec \<in> set recs" for rec
    using list_all2_in_right [OF l2 that] by blast
  with recs m show ?thesis by blast
qed

lemma generator_rows:
  assumes "0 \<le> offset" and "offset \<le> end" and "end \<le> 1"
    and "\<forall>shard \<in> set shards. \<forall>r \<in> set (po_table shard).
           row_converts timestemp_column columns r"
  shows "\<exists>recs. generator_function timestemp_column columns offset end freq shards = Inr recs
           \<and> map source_row recs
               = concat (map (\<lambda>shard. row_range (po_table shard)
                                (nat \<lfloor>real (length (po_table shard)) * offset\<rfloor>)
                                (nat \<lfloor>real (length (po_table shard)) * end\<rfloor>)) shards)
           \<and> (\<forall>rec \<in> set recs. r_freq rec = freq)"
  using assms(4)
proof (induction shards)
  case Nil
  show ?case by simp
next
  case (Cons shard shards)
  obtain rs where rs: "shard_records timestemp_column columns offset end freq shard = Inr rs"
    and rs_rows: "map source_row rs
               = row_range (po_table shard)
                   (nat \<lfloor>real (length (po_table shard)) * offset\<rfloor>)
                   (nat \<lfloor>real (length (po_table shard)) * end\<rfloor>)"
    and rs_freq: "\<forall>rec \<in> set rs. r_freq rec = freq"
    using shard_records_range [OF assms(1-3), of shard timestemp_column columns freq] Cons.prems
    by auto
  obtain rest where rest: "generator_function timestemp_column columns offset end freq shards = Inr rest"
    and rest_rows: "map source_row rest
               = concat (map (\<lambda>shard. row_range (po_table shard)
                                (nat \<lfloor>real (length (po_table shard)) * offset\<rfloor>)
                                (nat \<lfloor>real (length (po_table shard)) * end\<rfloor>)) shards)"
    and rest_freq: "\<forall>rec \<in> set rest. r_freq rec = freq"
    using Cons.IH Cons.prems by auto
  show ?case
    using rs rs_rows rs_freq rest rest_rows rest_freq by auto
qed




subsection \<open>The example folder\<close>

lemma example_rows_convert:
  "r \<in> set (po_table example_file) \<Longrightarrow> row_converts ''ts'' [''a'', ''b''] r"
  by (auto simp: row_converts_def with_columns_def pl_col_def example_row_def concat_list_def
      when_then_def is_not_null_def pl_fold_def np_reshape_def example_file_def mod_Suc)



lemma example_length: "length (po_table example_file) = 10"
  by (simp add: example_file_def)

text \<open>The generator on the example file, for fractions in the right order.\<close>

lemma example_generator:
  assumes "0 \<le> offset" and "offset \<le> end" and "end \<le> 1"
  shows "\<exists>recs. generator_function ''ts'' [''a'', ''b''] offset end (PyStr ''H'') [example_file] = Inr recs
           \<and> map source_row recs
               = row_range (po_table example_file) (nat \<lfloor>10 * offset\<rfloor>) (nat \<lfloor>10 * end\<rfloor>)
           \<and> (\<forall>rec \<in> set recs. r_freq rec = PyStr ''H'')"
proof -
  have conv: "\<forall>shard \<in> set [example_file]. \<forall>r \<in> set (po_table shard).
      row_converts ''ts'' [''a'', ''b''] r"
    using example_rows_convert by simp
  from generator_rows [of offset "end" "[example_file]" "''ts''" "[''a'', ''b'']" "PyStr ''H''",
      OF assms conv]
  show ?thesis by (simp add: example_length del: generator_function.simps)
qed

lemma example_rows_0_2: "row_range (po_table example_file) 0 2 = [example_row 0, example_row 1]"
  by (simp add: example_file_def row_range_def upt_rec)



section \<open>Frequency and start of a record\<close>

text \<open>
  C7. Every record that the generator made by \<^verbatim>\<open>_from_polars\<close> yields carries the
  \<^verbatim>\<open>freq\<close> argument of the construction unchanged; it comes from a row of one of
  the shards, and its \<^verbatim>\<open>start\<close> is the first element of that row's timestamp
  cell.
\<close>

theorem record_freq_and_start:
  assumes "from_polars timestemp_column columns offset end freq = Inr (generator_func, feats)"
    and "generator_func shards = Inr recs"
  shows "\<forall>rec \<in> set recs.
           r_freq rec = freq
         \<and> (\<exists>shard \<in> set shards. fst (r_item_id rec) = po_path shard
                \<and> source_row rec \<in> set (po_table shard))
         \<and> (\<exists>c. map_of (source_row rec) timestemp_column = Some c \<and> r_start rec = list_first c)"
proof
  fix rec
  assume rec: "rec \<in> set recs"
  have "generator_function timestemp_column columns offset end freq shards = Inr recs"
    using assms by (simp add: from_polars_Inr)
  then obtain recss where l2: "list_all2
       (\<lambda>shard rs. shard_records timestemp_column columns offset end freq shard = Inr rs) shards recss"
    and recs: "recs = concat recss"
    by (auto simp: generator_function_Inr)
  from rec recs obtain rs where rs: "rs \<in> set recss" and rec_rs: "rec \<in> set rs" by auto
  from list_all2_in_right [OF l2 rs]
  obtain shard where shard: "shard \<in> set shards"
    and sr: "shard_records timestemp_column columns offset end freq shard = Inr rs" by blast
  from shard_records_rows [OF sr]
  obtain lf where sel: "selected_rows offset end (po_table shard) = Inr lf"
    and rows: "list_all2 (\<lambda>r rec. source_row rec = r \<and> r_freq rec = freq
                  \<and> fst (r_item_id rec) = po_path shard
                  \<and> (\<exists>c. map_of r timestemp_column = Some c \<and> r_start rec = list_first c)) lf rs"
    by blast
  from list_all2_in_right [OF rows rec_rs]
  obtain r where r: "r \<in> set lf" and src: "source_row rec = r" and fr: "r_freq rec = freq"
    and id: "fst (r_item_id rec) = po_path shard"
    and st: "\<exists>c. map_of r timestemp_column = Some c \<and> r_start rec = list_first c"
    by blast
  have "r \<in> set (po_table shard)"
    using selected_rows_subset [OF sel] r by blast
  with shard src fr id st
  show "r_freq rec = freq
         \<and> (\<exists>shard \<in> set shards. fst (r_item_id rec) = po_path shard
                \<and> source_row rec \<in> set (po_table shard))
         \<and> (\<exists>c. map_of (source_row rec) timestemp_column = Some c \<and> r_start rec = list_first c)"
    by blast
qed

theorem record_freq_and_start_witness:
  "\<exists>recs. generator_function ''ts'' [''a'', ''b''] 0 (1 / 5) (PyStr ''H'') [example_file] = Inr recs
      \<and> length recs = 2
      \<and> list_all (\<lambda>rec. r_freq rec = PyStr ''H'') recs
      \<and> map r_start recs = [Some 0, Some 1]"
proof -
  have "nat \<lfloor>10 * (0::real)\<rfloor> = 0" and "nat \<lfloor>10 * (1 / 5 :: real)\<rfloor> = 2"
    by simp_all
  with example_generator [of 0 "1 / 5"] example_rows_0_2
  obtain recs where g: "generator_function ''ts'' [''a'', ''b''] 0 (1 / 5) (PyStr ''H'') [example_file] = Inr recs"
    and rows: "map source_row recs = [example_row 0, example_row 1]"
    by auto
  from rows obtain x y where recs: "recs = [x, y]"
    and x: "source_row x = example_row 0" and y: "source_row y = example_row 1"
    by auto
  have fp: "from_polars ''ts'' [''a'', ''b''] 0 (1 / 5) (PyStr ''H'')
      = Inr (generator_function ''ts'' [''a'', ''b''] 0 (1 / 5) (PyStr ''H''), features)"
    by (simp add: from_polars_Inr)
  from record_freq_and_start [OF fp g] recs x y
  have "list_all (\<lambda>rec. r_freq rec = PyStr ''H'') recs \<and> map r_start recs = [Some 0, Some 1]"
    by (auto simp: example_row_def list_first_def)
  with g recs show ?thesis by auto
qed

section \<open>The driver and its two splits\<close>





end
